theory Spec2Isabelle
  imports Complex_Main "HOL-Library.Sublist"
begin

section \<open>Package referenceframe: frames, limits and inputs\<close>

text \<open>
  A shallow embedding of the Go file that defines the package \<^verbatim>\<open>referenceframe\<close>:
  the \<^verbatim>\<open>Frame\<close> interface, its concrete frame types, their constructors and the
  random-input helpers.

  Go returns a value and an error side by side, and both may be non-nil (an out-of-bounds
  transform returns the pose \<^emph>\<open>and\<close> an error). A Go result \<^verbatim>\<open>(v, err)\<close> is therefore a pair
  of options, \<open>None\<close> standing for \<^verbatim>\<open>nil\<close>. An index past the end of a slice panics; a
  function that can panic returns \<open>Panics\<close> or \<open>Returns r\<close>.
\<close>

subsection \<open>float64\<close>

text \<open>
  A \<^verbatim>\<open>float64\<close> is a finite number, one of the two infinities, or NaN. Finite values are
  idealised as reals with exact arithmetic: rounding, overflow and the sign of zero are
  outside the model. The special values follow IEEE 754: any operation on NaN is NaN,
  \<open>\<infinity> - \<infinity>\<close> and \<open>0 * \<infinity>\<close> are NaN, every comparison with NaN is false.
\<close>

datatype float64 = NaN | NInf | Fin real | PInf

fun f_neg :: "float64 \<Rightarrow> float64" where
  "f_neg NaN = NaN"
| "f_neg NInf = PInf"
| "f_neg PInf = NInf"
| "f_neg (Fin a) = Fin (- a)"

fun f_add :: "float64 \<Rightarrow> float64 \<Rightarrow> float64" where
  "f_add (Fin a) (Fin b) = Fin (a + b)"
| "f_add NaN _ = NaN"
| "f_add _ NaN = NaN"
| "f_add PInf NInf = NaN"
| "f_add NInf PInf = NaN"
| "f_add PInf _ = PInf"
| "f_add _ PInf = PInf"
| "f_add NInf _ = NInf"
| "f_add _ NInf = NInf"

definition f_sub :: "float64 \<Rightarrow> float64 \<Rightarrow> float64" where
  "f_sub a b = f_add a (f_neg b)"

text \<open>The sign of a non-NaN value: \<open>-1\<close>, \<open>0\<close> or \<open>1\<close>.\<close>

fun f_sgn :: "float64 \<Rightarrow> int" where
  "f_sgn NaN = 0"
| "f_sgn NInf = - 1"
| "f_sgn PInf = 1"
| "f_sgn (Fin a) = (if a < 0 then - 1 else if a = 0 then 0 else 1)"

fun f_mul :: "float64 \<Rightarrow> float64 \<Rightarrow> float64" where
  "f_mul (Fin a) (Fin b) = Fin (a * b)"
| "f_mul NaN _ = NaN"
| "f_mul _ NaN = NaN"
| "f_mul a b =
     (if f_sgn a * f_sgn b = 0 then NaN else if f_sgn a * f_sgn b < 0 then NInf else PInf)"

fun f_div :: "float64 \<Rightarrow> float64 \<Rightarrow> float64" where
  "f_div NaN _ = NaN"
| "f_div _ NaN = NaN"
| "f_div (Fin a) (Fin b) =
     (if b \<noteq> 0 then Fin (a / b)
      else if a = 0 then NaN else if a < 0 then NInf else PInf)"
| "f_div (Fin a) _ = Fin 0"
| "f_div a (Fin b) = (if f_sgn a * (if b < 0 then - 1 else 1) < 0 then NInf else PInf)"
| "f_div _ _ = NaN"

fun f_sqrt :: "float64 \<Rightarrow> float64" where
  "f_sqrt (Fin a) = (if a < 0 then NaN else Fin (sqrt a))"
| "f_sqrt PInf = PInf"
| "f_sqrt _ = NaN"

fun f_abs :: "float64 \<Rightarrow> float64" where
  "f_abs (Fin a) = Fin \<bar>a\<bar>"
| "f_abs NInf = PInf"
| "f_abs x = x"

text \<open>Go's \<^verbatim>\<open>a < b\<close> and \<^verbatim>\<open>a == b\<close>; \<^verbatim>\<open>a > b\<close> is \<open>f_lt b a\<close>.\<close>

fun f_lt :: "float64 \<Rightarrow> float64 \<Rightarrow> bool" where
  "f_lt (Fin a) (Fin b) = (a < b)"
| "f_lt NaN _ = False"
| "f_lt _ NaN = False"
| "f_lt _ NInf = False"
| "f_lt PInf _ = False"
| "f_lt _ _ = True"



fun is_finite :: "float64 \<Rightarrow> bool" where
  "is_finite (Fin a) = True"
| "is_finite _ = False"

subsection \<open>Vectors and axis angles\<close>

text \<open>
  \<^verbatim>\<open>r3.Vector\<close> of the library \<^verbatim>\<open>golang/geo\<close>, with the three of its methods the frames
  call: \<^verbatim>\<open>Mul\<close> scales, \<^verbatim>\<open>Norm2\<close> is the squared length, \<^verbatim>\<open>Normalize\<close> returns the
  zero vector for a vector of squared length zero and \<^verbatim>\<open>v.Mul(1 / math.Sqrt(n2))\<close>
  otherwise.
\<close>

record r3_Vector =
  X :: float64
  Y :: float64
  Z :: float64

definition r3_Mul :: "r3_Vector \<Rightarrow> float64 \<Rightarrow> r3_Vector" where
  "r3_Mul v m = \<lparr>X = f_mul m (X v), Y = f_mul m (Y v), Z = f_mul m (Z v)\<rparr>"



text \<open>
  Modelled from the spec: \<^verbatim>\<open>spatial.R3VectorAlmostEqual\<close> (package spatialmath is not in
  the sources). The spec compares vectors ``under \<open>\<epsilon>\<close>'': every component-wise difference is
  smaller than \<open>epsilon\<close>.
\<close>

definition R3VectorAlmostEqual :: "r3_Vector \<Rightarrow> r3_Vector \<Rightarrow> float64 \<Rightarrow> bool" where
  "R3VectorAlmostEqual a b epsilon =
     (f_lt (f_abs (f_sub (X a) (X b))) epsilon \<and>
      f_lt (f_abs (f_sub (Y a) (Y b))) epsilon \<and>
      f_lt (f_abs (f_sub (Z a) (Z b))) epsilon)"

record R4AA =
  Theta :: float64
  RX :: float64
  RY :: float64
  RZ :: float64

text \<open>
  Modelled from the spec: \<^verbatim>\<open>R4AA.Normalize\<close> (package spatialmath is not in the sources).
  The spec's axis-angle is ``angle in radians plus a unit axis'' and axes ``are normalised on
  construction'': the three axis components are divided by the axis' length. The method
  returns nothing, so it cannot report an error.
\<close>

definition R4AA_Normalize :: "R4AA \<Rightarrow> R4AA" where
  "R4AA_Normalize r4 =
     (let norm = f_sqrt (f_add (f_add (f_mul (RX r4) (RX r4)) (f_mul (RY r4) (RY r4)))
                               (f_mul (RZ r4) (RZ r4)))
      in r4\<lparr>RX := f_div (RX r4) norm, RY := f_div (RY r4) norm, RZ := f_div (RZ r4) norm\<rparr>)"

subsection \<open>Errors\<close>

text \<open>
  A Go \<^verbatim>\<open>error\<close> is kept as the list of its messages: one message for an error made by
  \<^verbatim>\<open>errors.New\<close> or \<^verbatim>\<open>fmt.Errorf\<close>, several for errors combined by \<^verbatim>\<open>multierr\<close>, whose
  \<^verbatim>\<open>Error()\<close> joins the messages with a semicolon and a space. A \<^verbatim>\<open>nil\<close> error is \<open>None\<close>.
\<close>

type_synonym error = "string list"

fun Error_str :: "error \<Rightarrow> string" where
  "Error_str [] = []"
| "Error_str [m] = m"
| "Error_str (m # ms) = m @ ''; '' @ Error_str ms"

definition AppendInto :: "error option \<Rightarrow> error \<Rightarrow> error option" where
  "AppendInto into e = (case into of None \<Rightarrow> Some e | Some es \<Rightarrow> Some (es @ e))"

definition strings_Contains :: "string \<Rightarrow> string \<Rightarrow> bool" where
  "strings_Contains s substr = sublist substr s"

definition OOBErrString :: string where
  "OOBErrString = ''input out of bounds''"

datatype 'a outcome = Panics | Returns 'a

subsection \<open>Formatting\<close>

text \<open>\<^verbatim>\<open>fmt.Sprint\<close> of a non-negative \<^verbatim>\<open>int\<close> and the verb \<^verbatim>\<open>%d\<close>: the decimal digits.\<close>

definition digit_char :: "nat \<Rightarrow> char" where
  "digit_char d = ''0123456789'' ! d"

function Sprint :: "nat \<Rightarrow> string" where
  "Sprint n = (if n < 10 then [digit_char n] else Sprint (n div 10) @ [digit_char (n mod 10)])"
  by pat_completeness auto
termination
  by (relation "measure id") auto

declare Sprint.simps [simp del]

text \<open>
  The verb \<^verbatim>\<open>%.5f\<close>: five digits after the decimal point, of the idealised value rounded
  to the nearest multiple of \<open>1/100000\<close>; \<^verbatim>\<open>+Inf\<close>, \<^verbatim>\<open>-Inf\<close> and \<^verbatim>\<open>NaN\<close> for the special
  values.
\<close>

definition pad5 :: "nat \<Rightarrow> string" where
  "pad5 k = replicate (5 - length (Sprint k)) (CHR ''0'') @ Sprint k"

fun fmt_f5 :: "float64 \<Rightarrow> string" where
  "fmt_f5 NaN = ''NaN''"
| "fmt_f5 PInf = ''+Inf''"
| "fmt_f5 NInf = ''-Inf''"
| "fmt_f5 (Fin a) =
     (let n = nat (round (\<bar>a\<bar> * 100000))
      in (if a < 0 then ''-'' else []) @ Sprint (n div 100000) @ ''.'' @ pad5 (n mod 100000))"

text \<open>
  Modelled from the spec: \<^verbatim>\<open>NewIncorrectInputLengthError\<close> (the package's error
  constructors are not in the sources). The spec names the error kind
  \<^verbatim>\<open>input length mismatch\<close> and has it carry the offending numbers.
\<close>

definition NewIncorrectInputLengthError :: "nat \<Rightarrow> nat \<Rightarrow> error" where
  "NewIncorrectInputLengthError actual expected =
     [''input length mismatch, expected '' @ Sprint expected @ '' but got '' @ Sprint actual]"

subsection \<open>Limits, inputs and the base frame\<close>

record Limit =
  Min_l :: float64
  Max_l :: float64

record Input =
  Value :: float64

text \<open>
  Modelled from the spec: \<^verbatim>\<open>utils.Float64AlmostEqual\<close> (package utils is not in the
  sources): the two values differ by less than \<open>epsilon\<close>.
\<close>

definition Float64AlmostEqual :: "float64 \<Rightarrow> float64 \<Rightarrow> float64 \<Rightarrow> bool" where
  "Float64AlmostEqual a b epsilon = (f_lt (f_sub a b) epsilon \<and> f_lt (f_sub b a) epsilon)"

fun limitsAlmostEqual_loop :: "Limit list \<Rightarrow> Limit list \<Rightarrow> bool" where
  "limitsAlmostEqual_loop (x # a) (y # b) =
     (if \<not> Float64AlmostEqual (Min_l x) (Min_l y) (Fin (1 / 100000)) \<or>
         \<not> Float64AlmostEqual (Max_l x) (Max_l y) (Fin (1 / 100000))
      then False else limitsAlmostEqual_loop a b)"
| "limitsAlmostEqual_loop _ _ = True"

definition limitsAlmostEqual :: "Limit list \<Rightarrow> Limit list \<Rightarrow> bool" where
  "limitsAlmostEqual a b =
     (if length a \<noteq> length b then False else limitsAlmostEqual_loop a b)"

record baseFrame =
  name :: string
  limits :: "Limit list"

text \<open>
  \<^verbatim>\<open>validInputs\<close>: a length mismatch returns at once; otherwise the loop visits every
  joint and appends one message for each value below its minimum or above its maximum.
\<close>

definition oob_error :: "nat \<Rightarrow> Input \<Rightarrow> Limit \<Rightarrow> error" where
  "oob_error i inp lm =
     [''joint '' @ Sprint i @ '' '' @ OOBErrString @ '', input '' @ fmt_f5 (Value inp) @
      '' needs to be within range ['' @ fmt_f5 (Max_l lm) @ '' '' @ fmt_f5 (Min_l lm) @ '']'']"

definition out_of_range :: "Input \<Rightarrow> Limit \<Rightarrow> bool" where
  "out_of_range inp lm = (f_lt (Value inp) (Min_l lm) \<or> f_lt (Max_l lm) (Value inp))"

definition validInputs_step :: "baseFrame \<Rightarrow> Input list \<Rightarrow> error option \<Rightarrow> nat \<Rightarrow> error option" where
  "validInputs_step bf inputs errAll i =
     (if out_of_range (inputs ! i) (limits bf ! i)
      then AppendInto errAll (oob_error i (inputs ! i) (limits bf ! i))
      else errAll)"

definition validInputs :: "baseFrame \<Rightarrow> Input list \<Rightarrow> error option" where
  "validInputs bf inputs =
     (if length inputs \<noteq> length (limits bf)
      then Some (NewIncorrectInputLengthError (length inputs) (length (limits bf)))
      else foldl (validInputs_step bf inputs) None [0 ..< length (limits bf)])"

definition baseFrame_AlmostEquals :: "baseFrame \<Rightarrow> baseFrame \<Rightarrow> bool" where
  "baseFrame_AlmostEquals bf other =
     (name bf = name other \<and> limitsAlmostEqual (limits bf) (limits other))"

subsection \<open>Poses and geometries of package spatialmath\<close>

text \<open>
  Modelled from the spec: \<^verbatim>\<open>spatial.Pose\<close>, \<^verbatim>\<open>spatial.Orientation\<close> and
  \<^verbatim>\<open>spatial.Geometry\<close> with their constructors (package spatialmath is not in the sources).
  The spec's pose is ``a translation (3-vector) and an orientation''; an orientation is a
  quaternion or, among its other representations, an axis angle; the zero orientation is the
  identity quaternion. \<^verbatim>\<open>NewPoseFromPoint\<close> is a pure translation,
  \<^verbatim>\<open>NewPoseFromOrientation\<close> a pure rotation, \<^verbatim>\<open>NewZeroPose\<close> the identity.
\<close>

datatype Orientation = Quaternion float64 float64 float64 float64 | AxisAngles R4AA

record Pose =
  Point :: r3_Vector
  Orientation :: Orientation

definition NewZeroOrientation :: Orientation where
  "NewZeroOrientation = Quaternion (Fin 1) (Fin 0) (Fin 0) (Fin 0)"

definition r3_zero :: r3_Vector where
  "r3_zero = \<lparr>X = Fin 0, Y = Fin 0, Z = Fin 0\<rparr>"

definition NewPoseFromPoint :: "r3_Vector \<Rightarrow> Pose" where
  "NewPoseFromPoint p = \<lparr>Point = p, Orientation = NewZeroOrientation\<rparr>"

definition NewPoseFromOrientation :: "Orientation \<Rightarrow> Pose" where
  "NewPoseFromOrientation ori = \<lparr>Point = r3_zero, Orientation = ori\<rparr>"

definition NewZeroPose :: Pose where
  "NewZeroPose = \<lparr>Point = r3_zero, Orientation = NewZeroOrientation\<rparr>"

text \<open>
  Modelled from the spec: \<^verbatim>\<open>spatial.PoseAlmostEqual\<close>. The points are compared under
  \<open>\<epsilon> = 1e-8\<close>; the comparison of two orientations (an angular distance between
  quaternions) is not in the sources and is the parameter \<open>oeq\<close>.
\<close>

definition PoseAlmostEqual :: "(Orientation \<Rightarrow> Orientation \<Rightarrow> bool) \<Rightarrow> Pose \<Rightarrow> Pose \<Rightarrow> bool" where
  "PoseAlmostEqual oeq a b =
     (R3VectorAlmostEqual (Point a) (Point b) (Fin (1 / 100000000)) \<and>
      oeq (Orientation a) (Orientation b))"

text \<open>
  Modelled from the spec: \<^verbatim>\<open>spatial.Geometry\<close> with its methods \<^verbatim>\<open>Transform\<close>,
  \<^verbatim>\<open>Label\<close> and \<^verbatim>\<open>SetLabel\<close> (package spatialmath is not in the sources). The spec's
  geometry is ``a labelled 3D primitive'' that ``carries an internal pose'', and
  \<^verbatim>\<open>Transform(pose)\<close> ``returns a new geometry at the composed pose''. The composition of
  poses is not in the sources either: the placement is kept as the sequence of the poses
  applied by \<^verbatim>\<open>Transform\<close>, the last applied first, standing for their composition.
\<close>

datatype Shape = Box r3_Vector | Sphere float64 | Capsule float64 float64 | PointShape

record Geometry =
  shape :: Shape
  placement :: "Pose list"
  label :: string

definition Geometry_Transform :: "Geometry \<Rightarrow> Pose \<Rightarrow> Geometry" where
  "Geometry_Transform g p = g\<lparr>placement := p # placement g\<rparr>"

definition SetLabel :: "Geometry \<Rightarrow> string \<Rightarrow> Geometry" where
  "SetLabel g l = g\<lparr>label := l\<rparr>"

record GeometriesInFrame =
  frame :: string
  geometries :: "Geometry list"

text \<open>
  Modelled from the spec: \<^verbatim>\<open>GeometriesInFrame\<close> and \<^verbatim>\<open>NewGeometriesInFrame\<close> (their file
  is not in the sources), the spec's ``\<open>(frame-name, [geometry])\<close> record''; the wrapper
  below reads its field \<^verbatim>\<open>geometries\<close>. A \<^verbatim>\<open>nil\<close> slice of geometries is the empty list.
\<close>

definition NewGeometriesInFrame :: "string \<Rightarrow> Geometry list \<Rightarrow> GeometriesInFrame" where
  "NewGeometriesInFrame nm gs = \<lparr>frame = nm, geometries = gs\<rparr>"

subsection \<open>The frames\<close>

text \<open>
  The concrete types of the file that implement the interface \<^verbatim>\<open>Frame\<close>, one constructor
  each. A struct's embedded \<^verbatim>\<open>*baseFrame\<close> is its first argument; the geometry of a frame
  may be \<^verbatim>\<open>nil\<close>. The two wrappers embed the interface itself, so they hold any frame.
\<close>

datatype Frame =
    staticFrame baseFrame Pose "Geometry option"
  | tailGeometryStaticFrame baseFrame Pose "Geometry option"
  | noGeometryFrame Frame
  | namedFrame Frame string
  | translationalFrame baseFrame r3_Vector "Geometry option"
  | rotationalFrame baseFrame r3_Vector
  | mobile2DFrame baseFrame "Geometry option"

type_synonym 'a result = "('a option \<times> error option)"

fun Name :: "Frame \<Rightarrow> string" where
  "Name (staticFrame bf t g) = name bf"
| "Name (tailGeometryStaticFrame bf t g) = name bf"
| "Name (noGeometryFrame f) = Name f"
| "Name (namedFrame f n) = n"
| "Name (translationalFrame bf ax g) = name bf"
| "Name (rotationalFrame bf ax) = name bf"
| "Name (mobile2DFrame bf g) = name bf"

fun DoF :: "Frame \<Rightarrow> Limit list" where
  "DoF (staticFrame bf t g) = limits bf"
| "DoF (tailGeometryStaticFrame bf t g) = limits bf"
| "DoF (noGeometryFrame f) = DoF f"
| "DoF (namedFrame f n) = DoF f"
| "DoF (translationalFrame bf ax g) = limits bf"
| "DoF (rotationalFrame bf ax) = limits bf"
| "DoF (mobile2DFrame bf g) = limits bf"

text \<open>
  The guard the three moving frames share: an error of \<^verbatim>\<open>validInputs\<close> that does not
  contain \<^verbatim>\<open>OOBErrString\<close> is fatal.
\<close>

definition fatal :: "error option \<Rightarrow> bool" where
  "fatal err = (case err of None \<Rightarrow> False
                | Some e \<Rightarrow> \<not> strings_Contains (Error_str e) OOBErrString)"

fun Transform :: "Frame \<Rightarrow> Input list \<Rightarrow> Pose result outcome" where
  "Transform (staticFrame bf t g) input =
     (if length input \<noteq> 0
      then Returns (None, Some (NewIncorrectInputLengthError (length input) 0))
      else Returns (Some t, None))"
| "Transform (tailGeometryStaticFrame bf t g) input =
     (if length input \<noteq> 0
      then Returns (None, Some (NewIncorrectInputLengthError (length input) 0))
      else Returns (Some t, None))"
| "Transform (noGeometryFrame f) input = Transform f input"
| "Transform (namedFrame f n) input = Transform f input"
| "Transform (translationalFrame bf transAxis g) input =
     (let err = validInputs bf input in
      if fatal err then Returns (None, err)
      else (case input of
              [] \<Rightarrow> Panics
            | i0 # _ \<Rightarrow> Returns (Some (NewPoseFromPoint (r3_Mul transAxis (Value i0))), err)))"
| "Transform (rotationalFrame bf rotAxis) input =
     (let err = validInputs bf input in
      if fatal err then Returns (None, err)
      else (case input of
              [] \<Rightarrow> Panics
            | i0 # _ \<Rightarrow>
                Returns (Some (NewPoseFromOrientation (AxisAngles
                  \<lparr>Theta = Value i0, RX = X rotAxis, RY = Y rotAxis, RZ = Z rotAxis\<rparr>)), err)))"
| "Transform (mobile2DFrame bf g) input =
     (let err = validInputs bf input in
      if fatal err then Returns (None, err)
      else (case input of
              i0 # i1 # _ \<Rightarrow>
                Returns (Some (NewPoseFromPoint \<lparr>X = Value i0, Y = Value i1, Z = Fin 0\<rparr>), err)
            | _ \<Rightarrow> Panics))"

text \<open>
  \<^verbatim>\<open>Geometries\<close>. A static frame places its geometry at the origin, a tail-geometry
  static frame at the end of its transform; both look at the geometry before they look at
  the inputs. The two methods end alike, in \<open>placed\<close>: the geometry is transformed, takes
  the frame's name as its label when it has none, and is returned alone. The methods of the
  translational and the mobile-2D frame are the same text, \<open>moved\<close>, after their own
  \<^verbatim>\<open>Transform\<close>: no pose or a fatal error returns the error alone, otherwise the geometry
  is returned at the pose, beside the error if there is one. The named wrapper returns at
  once when the inner error is not \<^verbatim>\<open>nil\<close>, and otherwise reads the field
  \<^verbatim>\<open>geometries\<close> of the inner result; on a \<^verbatim>\<open>nil\<close> result that read panics.
\<close>

definition placed :: "string \<Rightarrow> Geometry \<Rightarrow> Pose \<Rightarrow> GeometriesInFrame result outcome" where
  "placed nm g p =
     (let newGeom = Geometry_Transform g p;
          newGeom = (if label newGeom = [] then SetLabel newGeom nm else newGeom)
      in Returns (Some (NewGeometriesInFrame nm [newGeom]), None))"

definition moved :: "string \<Rightarrow> Geometry \<Rightarrow> Pose result outcome \<Rightarrow> GeometriesInFrame result outcome" where
  "moved nm g r =
     (case r of
        Panics \<Rightarrow> Panics
      | Returns (pose, err) \<Rightarrow>
          (case pose of
             None \<Rightarrow> Returns (None, err)
           | Some p \<Rightarrow>
               if fatal err then Returns (None, err)
               else Returns (Some (NewGeometriesInFrame nm [Geometry_Transform g p]), err)))"

fun Geometries :: "Frame \<Rightarrow> Input list \<Rightarrow> GeometriesInFrame result outcome" where
  "Geometries (staticFrame bf t geometry) input =
     (case geometry of
        None \<Rightarrow> Returns (Some (NewGeometriesInFrame (name bf) []), None)
      | Some g \<Rightarrow>
          if length input \<noteq> 0
          then Returns (None, Some (NewIncorrectInputLengthError (length input) 0))
          else placed (name bf) g NewZeroPose)"
| "Geometries (tailGeometryStaticFrame bf t geometry) input =
     (case geometry of
        None \<Rightarrow> Returns (Some (NewGeometriesInFrame (name bf) []), None)
      | Some g \<Rightarrow>
          if length input \<noteq> 0
          then Returns (None, Some (NewIncorrectInputLengthError (length input) 0))
          else placed (name bf) g t)"
| "Geometries (noGeometryFrame f) input =
     Returns (Some (NewGeometriesInFrame (Name (noGeometryFrame f)) []), None)"
| "Geometries (namedFrame f n) inputs =
     (case Geometries f inputs of
        Panics \<Rightarrow> Panics
      | Returns (gif, err) \<Rightarrow>
          (case err of
             Some e \<Rightarrow> Returns (None, Some e)
           | None \<Rightarrow>
               (case gif of
                  None \<Rightarrow> Panics
                | Some gf \<Rightarrow> Returns (Some (NewGeometriesInFrame n (geometries gf)), None))))"
| "Geometries (translationalFrame bf transAxis geometry) input =
     (case geometry of
        None \<Rightarrow> Returns (Some (NewGeometriesInFrame (name bf) []), None)
      | Some g \<Rightarrow> moved (name bf) g (Transform (translationalFrame bf transAxis geometry) input))"
| "Geometries (rotationalFrame bf rotAxis) input =
     Returns (None, Some [''Geometries not implemented for type *referenceframe.rotationalFrame''])"
| "Geometries (mobile2DFrame bf geometry) input =
     (case geometry of
        None \<Rightarrow> Returns (Some (NewGeometriesInFrame (name bf) []), None)
      | Some g \<Rightarrow> moved (name bf) g (Transform (mobile2DFrame bf geometry) input))"

text \<open>
  \<^verbatim>\<open>AlmostEquals\<close>. Each method asserts the dynamic type of the other frame; the assertion
  fails on a wrapper, whatever it wraps. A tail-geometry static frame and the two wrappers
  have no method of their own: they use the promoted method of what they embed.
\<close>

fun AlmostEquals :: "(Orientation \<Rightarrow> Orientation \<Rightarrow> bool) \<Rightarrow> Frame \<Rightarrow> Frame \<Rightarrow> bool" where
  "AlmostEquals oeq (staticFrame bf t g) otherFrame =
     (case otherFrame of
        staticFrame obf ot og \<Rightarrow> baseFrame_AlmostEquals bf obf \<and> PoseAlmostEqual oeq t ot
      | _ \<Rightarrow> False)"
| "AlmostEquals oeq (tailGeometryStaticFrame bf t g) otherFrame =
     (case otherFrame of
        staticFrame obf ot og \<Rightarrow> baseFrame_AlmostEquals bf obf \<and> PoseAlmostEqual oeq t ot
      | _ \<Rightarrow> False)"
| "AlmostEquals oeq (noGeometryFrame f) otherFrame = AlmostEquals oeq f otherFrame"
| "AlmostEquals oeq (namedFrame f n) otherFrame = AlmostEquals oeq f otherFrame"
| "AlmostEquals oeq (translationalFrame bf transAxis g) otherFrame =
     (case otherFrame of
        translationalFrame obf oaxis og \<Rightarrow>
          baseFrame_AlmostEquals bf obf \<and>
          R3VectorAlmostEqual transAxis oaxis (Fin (1 / 100000000))
      | _ \<Rightarrow> False)"
| "AlmostEquals oeq (rotationalFrame bf rotAxis) otherFrame =
     (case otherFrame of
        rotationalFrame obf oaxis \<Rightarrow>
          baseFrame_AlmostEquals bf obf \<and>
          R3VectorAlmostEqual rotAxis oaxis (Fin (1 / 100000000))
      | _ \<Rightarrow> False)"
| "AlmostEquals oeq (mobile2DFrame bf g) otherFrame =
     (case otherFrame of
        rotationalFrame obf oaxis \<Rightarrow> baseFrame_AlmostEquals bf obf
      | _ \<Rightarrow> False)"

subsection \<open>Constructors\<close>

definition NewNamedFrame :: "Frame \<Rightarrow> string \<Rightarrow> Frame" where
  "NewNamedFrame f nm = namedFrame f nm"

definition NewStaticFrame :: "string \<Rightarrow> Pose option \<Rightarrow> Frame result" where
  "NewStaticFrame nm pose =
     (case pose of
        None \<Rightarrow> (None, Some [''pose is not allowed to be nil''])
      | Some p \<Rightarrow> (Some (staticFrame \<lparr>name = nm, limits = []\<rparr> p None), None))"

definition NewZeroStaticFrame :: "string \<Rightarrow> Frame" where
  "NewZeroStaticFrame nm = staticFrame \<lparr>name = nm, limits = []\<rparr> NewZeroPose None"




definition NewRotationalFrame :: "string \<Rightarrow> R4AA \<Rightarrow> Limit \<Rightarrow> Frame result" where
  "NewRotationalFrame nm axis limit =
     (let axis = R4AA_Normalize axis in
      (Some (rotationalFrame \<lparr>name = nm, limits = [limit]\<rparr>
               \<lparr>X = RX axis, Y = RY axis, Z = RZ axis\<rparr>), None))"

definition NewMobile2DFrame :: "string \<Rightarrow> Limit list \<Rightarrow> Geometry option \<Rightarrow> Frame result" where
  "NewMobile2DFrame nm lims geometry =
     (if length lims \<noteq> 2
      then (None, Some [''cannot create a '' @ Sprint (length lims) @
                        '' dof mobile frame, only support 2 dimensions currently''])
      else (Some (mobile2DFrame \<lparr>name = nm, limits = lims\<rparr> geometry), None))"

subsection \<open>Random inputs\<close>





subsection \<open>Serialisation\<close>



















subsection \<open>Notions used by the properties\<close>

text \<open>
  The same base frame with every limit opened to the whole line: the ``unrestricted''
  frame against which an out-of-bounds transform is compared.
\<close>

definition unrestricted :: "baseFrame \<Rightarrow> baseFrame" where
  "unrestricted bf = bf\<lparr>limits := map (\<lambda>_. \<lparr>Min_l = NInf, Max_l = PInf\<rparr>) (limits bf)\<rparr>"

text \<open>What the loop of \<^verbatim>\<open>validInputs\<close> keeps true of the error it accumulates.\<close>

definition oob_acc :: "error option \<Rightarrow> bool" where
  "oob_acc acc =
     (case acc of None \<Rightarrow> True | Some es \<Rightarrow> es \<noteq> [] \<and> sublist OOBErrString (hd es))"






section \<open>Properties\<close>

subsection \<open>Error messages and the check of the inputs\<close>

text \<open>
  The message of a length mismatch has no letter \<open>f\<close>, so it cannot contain
  \<^verbatim>\<open>OOBErrString\<close>; every message of an out-of-range joint contains it.
\<close>

lemma digit_char_in: "d < 10 \<Longrightarrow> digit_char d \<in> set ''0123456789''"
  unfolding digit_char_def by (rule nth_mem) simp

lemma set_Sprint: "set (Sprint n) \<subseteq> set ''0123456789''"
proof (induction n rule: Sprint.induct)
  case (1 n)
  show ?case
  proof (cases "n < 10")
    case True
    then show ?thesis using digit_char_in [of n] by (subst Sprint.simps) simp
  next
    case False
    have "n mod 10 < 10" by simp
    then have "digit_char (n mod 10) \<in> set ''0123456789''" by (rule digit_char_in)
    with False 1 show ?thesis by (subst Sprint.simps) simp
  qed
qed

lemma f_notin_Sprint: "CHR ''f'' \<notin> set (Sprint n)"
  using set_Sprint [of n] by auto

lemma length_error_not_oob:
  "\<not> strings_Contains (Error_str (NewIncorrectInputLengthError a e)) OOBErrString"
proof
  assume "strings_Contains (Error_str (NewIncorrectInputLengthError a e)) OOBErrString"
  then have "set OOBErrString \<subseteq> set (Error_str (NewIncorrectInputLengthError a e))"
    unfolding strings_Contains_def by (rule set_mono_sublist)
  moreover have "CHR ''f'' \<in> set OOBErrString" by (simp add: OOBErrString_def)
  ultimately have "CHR ''f'' \<in> set (Error_str (NewIncorrectInputLengthError a e))" by blast
  then show False
    using f_notin_Sprint [of a] f_notin_Sprint [of e]
    by (simp add: NewIncorrectInputLengthError_def)
qed

lemma oob_error_contains:
  "strings_Contains (Error_str (oob_error i inp lm)) OOBErrString"
proof -
  have "Error_str (oob_error i inp lm) =
        (''joint '' @ Sprint i @ '' '') @ OOBErrString @
        ('', input '' @ fmt_f5 (Value inp) @ '' needs to be within range ['' @
         fmt_f5 (Max_l lm) @ '' '' @ fmt_f5 (Min_l lm) @ '']'')"
    by (simp add: oob_error_def)
  then show ?thesis unfolding strings_Contains_def by (metis sublist_appendI)
qed

lemma Error_str_head:
  "sublist s m \<Longrightarrow> sublist s (Error_str (m # ms))"
  by (cases ms) (auto simp: sublist_append)

lemma oob_acc_step: "oob_acc acc \<Longrightarrow> oob_acc (validInputs_step bf inputs acc i)"
  using oob_error_contains [of i "inputs ! i" "limits bf ! i"]
  by (auto simp: oob_acc_def validInputs_step_def AppendInto_def oob_error_def strings_Contains_def
      split: option.splits)

lemma oob_acc_foldl: "oob_acc acc \<Longrightarrow> oob_acc (foldl (validInputs_step bf inputs) acc is)"
  by (induction "is" arbitrary: acc) (auto intro: oob_acc_step)

lemma oob_acc_not_fatal: "oob_acc acc \<Longrightarrow> \<not> fatal acc"
  by (cases acc) (auto simp: oob_acc_def fatal_def strings_Contains_def neq_Nil_conv intro: Error_str_head)

lemma validInputs_not_fatal:
  "length inputs = length (limits bf) \<Longrightarrow> \<not> fatal (validInputs bf inputs)"
proof -
  assume "length inputs = length (limits bf)"
  moreover have "oob_acc None" by (simp add: oob_acc_def)
  then have "\<not> fatal (foldl (validInputs_step bf inputs) None [0 ..< length (limits bf)])"
    by (intro oob_acc_not_fatal oob_acc_foldl)
  ultimately show ?thesis by (simp add: validInputs_def)
qed

lemma validInputs_length_fatal:
  "length inputs \<noteq> length (limits bf) \<Longrightarrow>
   validInputs bf inputs = Some (NewIncorrectInputLengthError (length inputs) (length (limits bf)))
   \<and> fatal (validInputs bf inputs)"
  by (simp add: validInputs_def fatal_def length_error_not_oob)

lemma step_Some: "\<exists>es'. validInputs_step bf inputs (Some es) i = Some es'"
  by (simp add: validInputs_step_def AppendInto_def)

lemma foldl_Some: "\<exists>es'. foldl (validInputs_step bf inputs) (Some es) is = Some es'"
proof (induction "is" arbitrary: es)
  case Nil
  show ?case by simp
next
  case (Cons i "is")
  obtain es' where "validInputs_step bf inputs (Some es) i = Some es'"
    using step_Some by blast
  with Cons [of es'] show ?case by simp
qed

lemma foldl_None_iff:
  "foldl (validInputs_step bf inputs) None is = None \<longleftrightarrow>
   (\<forall>i \<in> set is. \<not> out_of_range (inputs ! i) (limits bf ! i))"
proof (induction "is")
  case Nil
  show ?case by simp
next
  case (Cons i "is")
  show ?case
  proof (cases "out_of_range (inputs ! i) (limits bf ! i)")
    case True
    then have "validInputs_step bf inputs None i = Some (oob_error i (inputs ! i) (limits bf ! i))"
      by (simp add: validInputs_step_def AppendInto_def)
    then have "foldl (validInputs_step bf inputs) (validInputs_step bf inputs None i) is \<noteq> None"
      using foldl_Some [of bf inputs "oob_error i (inputs ! i) (limits bf ! i)" "is"] by auto
    with True show ?thesis by simp
  next
    case False
    then have "validInputs_step bf inputs None i = None" by (simp add: validInputs_step_def)
    with False Cons show ?thesis by simp
  qed
qed

lemma validInputs_None_iff:
  "length inputs = length (limits bf) \<Longrightarrow>
   validInputs bf inputs = None \<longleftrightarrow>
   (\<forall>i < length (limits bf). \<not> out_of_range (inputs ! i) (limits bf ! i))"
  by (auto simp: validInputs_def foldl_None_iff)

subsection \<open>Transforms out of bounds\<close>

lemma not_out_of_range_unrestricted [simp]:
  "\<not> out_of_range inp \<lparr>Min_l = NInf, Max_l = PInf\<rparr>"
  by (cases "Value inp") (simp_all add: out_of_range_def)

lemma validInputs_unrestricted:
  "length inputs = length (limits bf) \<Longrightarrow> validInputs (unrestricted bf) inputs = None"
  by (simp add: validInputs_None_iff unrestricted_def)

lemma validInputs_oob:
  assumes "length inputs = length (limits bf)"
    and "i < length inputs" and "out_of_range (inputs ! i) (limits bf ! i)"
  shows "\<exists>e. validInputs bf inputs = Some e \<and> strings_Contains (Error_str e) OOBErrString"
proof -
  have "validInputs bf inputs \<noteq> None"
    using assms by (auto simp: validInputs_None_iff)
  then obtain e where e: "validInputs bf inputs = Some e" by blast
  have "\<not> fatal (validInputs bf inputs)"
    using assms(1) by (rule validInputs_not_fatal)
  with e have "strings_Contains (Error_str e) OOBErrString" by (simp add: fatal_def)
  with e show ?thesis by blast
qed

lemma translational_oob:
  assumes "out_of_range inp lm"
  shows "\<exists>e. Transform (translationalFrame \<lparr>name = nm, limits = [lm]\<rparr> axis g) [inp] =
            Returns (Some (NewPoseFromPoint (r3_Mul axis (Value inp))), Some e) \<and>
          strings_Contains (Error_str e) OOBErrString \<and>
          Transform (translationalFrame (unrestricted \<lparr>name = nm, limits = [lm]\<rparr>) axis g) [inp] =
            Returns (Some (NewPoseFromPoint (r3_Mul axis (Value inp))), None)"
proof -
  let ?bf = "\<lparr>name = nm, limits = [lm]\<rparr>"
  obtain e where e: "validInputs ?bf [inp] = Some e"
    and c: "strings_Contains (Error_str e) OOBErrString"
    using validInputs_oob [of "[inp]" ?bf 0] assms by auto
  have u: "validInputs (unrestricted ?bf) [inp] = None"
    by (rule validInputs_unrestricted) simp
  show ?thesis using e c u by (simp add: fatal_def)
qed

lemma rotational_oob:
  assumes "out_of_range inp lm"
  shows "\<exists>e. Transform (rotationalFrame \<lparr>name = nm, limits = [lm]\<rparr> axis) [inp] =
            Returns (Some (NewPoseFromOrientation (AxisAngles
              \<lparr>Theta = Value inp, RX = X axis, RY = Y axis, RZ = Z axis\<rparr>)), Some e) \<and>
          strings_Contains (Error_str e) OOBErrString \<and>
          Transform (rotationalFrame (unrestricted \<lparr>name = nm, limits = [lm]\<rparr>) axis) [inp] =
            Returns (Some (NewPoseFromOrientation (AxisAngles
              \<lparr>Theta = Value inp, RX = X axis, RY = Y axis, RZ = Z axis\<rparr>)), None)"
proof -
  let ?bf = "\<lparr>name = nm, limits = [lm]\<rparr>"
  obtain e where e: "validInputs ?bf [inp] = Some e"
    and c: "strings_Contains (Error_str e) OOBErrString"
    using validInputs_oob [of "[inp]" ?bf 0] assms by auto
  have u: "validInputs (unrestricted ?bf) [inp] = None"
    by (rule validInputs_unrestricted) simp
  show ?thesis using e c u by (simp add: fatal_def)
qed

lemma mobile2D_oob:
  assumes "out_of_range ix lx \<or> out_of_range iy ly"
  shows "\<exists>e. Transform (mobile2DFrame \<lparr>name = nm, limits = [lx, ly]\<rparr> g) [ix, iy] =
            Returns (Some (NewPoseFromPoint \<lparr>X = Value ix, Y = Value iy, Z = Fin 0\<rparr>), Some e) \<and>
          strings_Contains (Error_str e) OOBErrString \<and>
          Transform (mobile2DFrame (unrestricted \<lparr>name = nm, limits = [lx, ly]\<rparr>) g) [ix, iy] =
            Returns (Some (NewPoseFromPoint \<lparr>X = Value ix, Y = Value iy, Z = Fin 0\<rparr>), None)"
proof -
  let ?bf = "\<lparr>name = nm, limits = [lx, ly]\<rparr>"
  have "\<exists>e. validInputs ?bf [ix, iy] = Some e \<and> strings_Contains (Error_str e) OOBErrString"
    using assms validInputs_oob [of "[ix, iy]" ?bf 0] validInputs_oob [of "[ix, iy]" ?bf 1]
    by auto
  then obtain e where e: "validInputs ?bf [ix, iy] = Some e"
    and c: "strings_Contains (Error_str e) OOBErrString" by blast
  have u: "validInputs (unrestricted ?bf) [ix, iy] = None"
    by (rule validInputs_unrestricted) simp
  show ?thesis using e c u by (simp add: fatal_def)
qed

lemma wrong_length_fatal:
  assumes "length input \<noteq> length (limits bf)"
  shows "Transform (translationalFrame bf axis g) input =
           Returns (None, Some (NewIncorrectInputLengthError (length input) (length (limits bf))))"
    and "Transform (rotationalFrame bf axis) input =
           Returns (None, Some (NewIncorrectInputLengthError (length input) (length (limits bf))))"
    and "Transform (mobile2DFrame bf g) input =
           Returns (None, Some (NewIncorrectInputLengthError (length input) (length (limits bf))))"
proof -
  have v: "validInputs bf input =
           Some (NewIncorrectInputLengthError (length input) (length (limits bf)))"
    using validInputs_length_fatal [OF assms] by blast
  have f: "fatal (Some (NewIncorrectInputLengthError (length input) (length (limits bf))))"
    by (simp add: fatal_def length_error_not_oob)
  show "Transform (translationalFrame bf axis g) input =
           Returns (None, Some (NewIncorrectInputLengthError (length input) (length (limits bf))))"
    by (simp add: v f)
  show "Transform (rotationalFrame bf axis) input =
           Returns (None, Some (NewIncorrectInputLengthError (length input) (length (limits bf))))"
    by (simp add: v f)
  show "Transform (mobile2DFrame bf g) input =
           Returns (None, Some (NewIncorrectInputLengthError (length input) (length (limits bf))))"
    by (simp add: v f)
qed

subsection \<open>Normalised axes and the constructors\<close>







lemma validInputs_single:
  "validInputs \<lparr>name = nm, limits = [lm]\<rparr> [inp] =
     (if out_of_range inp lm then Some (oob_error 0 inp lm) else None)"
  by (simp add: validInputs_def validInputs_step_def AppendInto_def)

lemma not_fatal_oob_error: "\<not> fatal (Some (oob_error i inp lm))"
  by (simp add: fatal_def oob_error_contains)








subsection \<open>Random inputs\<close>





subsection \<open>The round trip through a config\<close>



lemma is_finiteE:
  assumes "is_finite a" obtains x where "a = Fin x"
  using assms by (cases a) auto

















subsection \<open>Claims\<close>

text \<open>
  C1. The claim: \<^verbatim>\<open>m.AlmostEquals(o)\<close> of a mobile-2D frame is true iff \<open>o\<close> is a mobile-2D
  frame whose name and limits agree with those of \<open>m\<close>. The method asserts that the other
  frame is a \<^emph>\<open>rotational\<close> frame, so it answers false on every mobile-2D frame, the frame
  itself included; and a rotational frame built by its constructor has one limit where the
  mobile-2D frame has two, so the method answers false on it as well.
\<close>

theorem mobile2DFrame_AlmostEquals_mobile2DFrame:
  "\<not> AlmostEquals oeq (mobile2DFrame bf g) (mobile2DFrame bf' g') \<and>
   (length (limits bf) = 2 \<longrightarrow>
      \<not> AlmostEquals oeq (mobile2DFrame bf g) (rotationalFrame \<lparr>name = nm, limits = [lm]\<rparr> ax))"
  by (simp add: baseFrame_AlmostEquals_def limitsAlmostEqual_def)

theorem mobile2DFrame_AlmostEquals_mobile2DFrame_witness:
  "NewMobile2DFrame ''base''
     [\<lparr>Min_l = Fin (- 5), Max_l = Fin 5\<rparr>, \<lparr>Min_l = Fin (- 5), Max_l = Fin 5\<rparr>] None =
     (Some (mobile2DFrame \<lparr>name = ''base'', limits =
        [\<lparr>Min_l = Fin (- 5), Max_l = Fin 5\<rparr>, \<lparr>Min_l = Fin (- 5), Max_l = Fin 5\<rparr>]\<rparr> None), None) \<and>
   \<not> AlmostEquals (=)
      (mobile2DFrame \<lparr>name = ''base'', limits =
        [\<lparr>Min_l = Fin (- 5), Max_l = Fin 5\<rparr>, \<lparr>Min_l = Fin (- 5), Max_l = Fin 5\<rparr>]\<rparr> None)
      (mobile2DFrame \<lparr>name = ''base'', limits =
        [\<lparr>Min_l = Fin (- 5), Max_l = Fin 5\<rparr>, \<lparr>Min_l = Fin (- 5), Max_l = Fin 5\<rparr>]\<rparr> None) \<and>
   length (limits \<lparr>name = ''base'', limits =
        [\<lparr>Min_l = Fin (- 5), Max_l = Fin 5\<rparr>, \<lparr>Min_l = Fin (- 5), Max_l = Fin 5\<rparr>]\<rparr>) = 2 \<and>
   \<not> AlmostEquals (=)
      (mobile2DFrame \<lparr>name = ''base'', limits =
        [\<lparr>Min_l = Fin (- 5), Max_l = Fin 5\<rparr>, \<lparr>Min_l = Fin (- 5), Max_l = Fin 5\<rparr>]\<rparr> None)
      (rotationalFrame \<lparr>name = ''base'', limits = [\<lparr>Min_l = Fin (- 5), Max_l = Fin 5\<rparr>]\<rparr>
        \<lparr>X = Fin 0, Y = Fin 0, Z = Fin 1\<rparr>)"
  using mobile2DFrame_AlmostEquals_mobile2DFrame [of "(=)"
      "\<lparr>name = ''base'', limits =
        [\<lparr>Min_l = Fin (- 5), Max_l = Fin 5\<rparr>, \<lparr>Min_l = Fin (- 5), Max_l = Fin 5\<rparr>]\<rparr>" None
      "\<lparr>name = ''base'', limits =
        [\<lparr>Min_l = Fin (- 5), Max_l = Fin 5\<rparr>, \<lparr>Min_l = Fin (- 5), Max_l = Fin 5\<rparr>]\<rparr>" None
      "''base''" "\<lparr>Min_l = Fin (- 5), Max_l = Fin 5\<rparr>" "\<lparr>X = Fin 0, Y = Fin 0, Z = Fin 1\<rparr>"]
  by (simp add: NewMobile2DFrame_def del: AlmostEquals.simps)

text \<open>
  C2. For a translational or rotational frame with its one limit and a mobile-2D frame with
  its two, an input of the right length with a value out of range gets the pose computed
  from that input, the pose the same frame with unrestricted limits returns without an
  error, together with an error whose text contains \<^verbatim>\<open>input out of bounds\<close>; an input of
  the wrong length gets no pose and an error whose text does not contain it, which the three
  methods treat as fatal.
\<close>

theorem Transform_out_of_bounds:
  "(out_of_range inp lm \<longrightarrow>
      (\<exists>e. Transform (translationalFrame \<lparr>name = nm, limits = [lm]\<rparr> axis g) [inp] =
              Returns (Some (NewPoseFromPoint (r3_Mul axis (Value inp))), Some e) \<and>
            strings_Contains (Error_str e) OOBErrString \<and>
            Transform (translationalFrame (unrestricted \<lparr>name = nm, limits = [lm]\<rparr>) axis g) [inp] =
              Returns (Some (NewPoseFromPoint (r3_Mul axis (Value inp))), None)) \<and>
      (\<exists>e. Transform (rotationalFrame \<lparr>name = nm, limits = [lm]\<rparr> axis) [inp] =
              Returns (Some (NewPoseFromOrientation (AxisAngles
                \<lparr>Theta = Value inp, RX = X axis, RY = Y axis, RZ = Z axis\<rparr>)), Some e) \<and>
            strings_Contains (Error_str e) OOBErrString \<and>
            Transform (rotationalFrame (unrestricted \<lparr>name = nm, limits = [lm]\<rparr>) axis) [inp] =
              Returns (Some (NewPoseFromOrientation (AxisAngles
                \<lparr>Theta = Value inp, RX = X axis, RY = Y axis, RZ = Z axis\<rparr>)), None))) \<and>
   (out_of_range ix lx \<or> out_of_range iy ly \<longrightarrow>
      (\<exists>e. Transform (mobile2DFrame \<lparr>name = nm, limits = [lx, ly]\<rparr> g) [ix, iy] =
              Returns (Some (NewPoseFromPoint \<lparr>X = Value ix, Y = Value iy, Z = Fin 0\<rparr>), Some e) \<and>
            strings_Contains (Error_str e) OOBErrString \<and>
            Transform (mobile2DFrame (unrestricted \<lparr>name = nm, limits = [lx, ly]\<rparr>) g) [ix, iy] =
              Returns (Some (NewPoseFromPoint \<lparr>X = Value ix, Y = Value iy, Z = Fin 0\<rparr>), None))) \<and>
   (length input \<noteq> length (limits bf) \<longrightarrow>
      (\<exists>e. Transform (translationalFrame bf axis g) input = Returns (None, Some e) \<and>
           Transform (rotationalFrame bf axis) input = Returns (None, Some e) \<and>
           Transform (mobile2DFrame bf g) input = Returns (None, Some e) \<and>
           \<not> strings_Contains (Error_str e) OOBErrString))"
proof (intro conjI impI)
  assume "out_of_range inp lm"
  then show "\<exists>e. Transform (translationalFrame \<lparr>name = nm, limits = [lm]\<rparr> axis g) [inp] =
              Returns (Some (NewPoseFromPoint (r3_Mul axis (Value inp))), Some e) \<and>
            strings_Contains (Error_str e) OOBErrString \<and>
            Transform (translationalFrame (unrestricted \<lparr>name = nm, limits = [lm]\<rparr>) axis g) [inp] =
              Returns (Some (NewPoseFromPoint (r3_Mul axis (Value inp))), None)"
    by (rule translational_oob)
next
  assume "out_of_range inp lm"
  then show "\<exists>e. Transform (rotationalFrame \<lparr>name = nm, limits = [lm]\<rparr> axis) [inp] =
              Returns (Some (NewPoseFromOrientation (AxisAngles
                \<lparr>Theta = Value inp, RX = X axis, RY = Y axis, RZ = Z axis\<rparr>)), Some e) \<and>
            strings_Contains (Error_str e) OOBErrString \<and>
            Transform (rotationalFrame (unrestricted \<lparr>name = nm, limits = [lm]\<rparr>) axis) [inp] =
              Returns (Some (NewPoseFromOrientation (AxisAngles
                \<lparr>Theta = Value inp, RX = X axis, RY = Y axis, RZ = Z axis\<rparr>)), None)"
    by (rule rotational_oob)
next
  assume "out_of_range ix lx \<or> out_of_range iy ly"
  then show "\<exists>e. Transform (mobile2DFrame \<lparr>name = nm, limits = [lx, ly]\<rparr> g) [ix, iy] =
              Returns (Some (NewPoseFromPoint \<lparr>X = Value ix, Y = Value iy, Z = Fin 0\<rparr>), Some e) \<and>
            strings_Contains (Error_str e) OOBErrString \<and>
            Transform (mobile2DFrame (unrestricted \<lparr>name = nm, limits = [lx, ly]\<rparr>) g) [ix, iy] =
              Returns (Some (NewPoseFromPoint \<lparr>X = Value ix, Y = Value iy, Z = Fin 0\<rparr>), None)"
    by (rule mobile2D_oob)
next
  assume a: "length input \<noteq> length (limits bf)"
  show "\<exists>e. Transform (translationalFrame bf axis g) input = Returns (None, Some e) \<and>
           Transform (rotationalFrame bf axis) input = Returns (None, Some e) \<and>
           Transform (mobile2DFrame bf g) input = Returns (None, Some e) \<and>
           \<not> strings_Contains (Error_str e) OOBErrString"
    using wrong_length_fatal [OF a] length_error_not_oob by blast
qed

theorem Transform_out_of_bounds_witness:
  "out_of_range \<lparr>Value = Fin 15\<rparr> \<lparr>Min_l = Fin 0, Max_l = Fin 10\<rparr> \<and>
   (\<exists>e. Transform (translationalFrame \<lparr>name = ''t'', limits = [\<lparr>Min_l = Fin 0, Max_l = Fin 10\<rparr>]\<rparr>
            \<lparr>X = Fin 1, Y = Fin 0, Z = Fin 0\<rparr> None) [\<lparr>Value = Fin 15\<rparr>] =
           Returns (Some \<lparr>Point = \<lparr>X = Fin 15, Y = Fin 0, Z = Fin 0\<rparr>,
                         Orientation = NewZeroOrientation\<rparr>, Some e) \<and>
         strings_Contains (Error_str e) OOBErrString) \<and>
   (out_of_range \<lparr>Value = Fin 3\<rparr> \<lparr>Min_l = Fin (- 5), Max_l = Fin 5\<rparr> \<or>
    out_of_range \<lparr>Value = Fin 7\<rparr> \<lparr>Min_l = Fin (- 5), Max_l = Fin 5\<rparr>) \<and>
   (\<exists>e. Transform (mobile2DFrame \<lparr>name = ''t'', limits =
            [\<lparr>Min_l = Fin (- 5), Max_l = Fin 5\<rparr>, \<lparr>Min_l = Fin (- 5), Max_l = Fin 5\<rparr>]\<rparr> None)
            [\<lparr>Value = Fin 3\<rparr>, \<lparr>Value = Fin 7\<rparr>] =
           Returns (Some \<lparr>Point = \<lparr>X = Fin 3, Y = Fin 7, Z = Fin 0\<rparr>,
                         Orientation = NewZeroOrientation\<rparr>, Some e) \<and>
         strings_Contains (Error_str e) OOBErrString) \<and>
   length ([] :: Input list) \<noteq>
     length (limits \<lparr>name = ''t'', limits = [\<lparr>Min_l = Fin 0, Max_l = Fin 10\<rparr>]\<rparr>) \<and>
   (\<exists>e. Transform (translationalFrame \<lparr>name = ''t'', limits = [\<lparr>Min_l = Fin 0, Max_l = Fin 10\<rparr>]\<rparr>
            \<lparr>X = Fin 1, Y = Fin 0, Z = Fin 0\<rparr> None) [] = Returns (None, Some e) \<and>
         \<not> strings_Contains (Error_str e) OOBErrString)"
  using Transform_out_of_bounds [of "\<lparr>Value = Fin 15\<rparr>" "\<lparr>Min_l = Fin 0, Max_l = Fin 10\<rparr>"
      "''t''" "\<lparr>X = Fin 1, Y = Fin 0, Z = Fin 0\<rparr>" None
      "\<lparr>Value = Fin 3\<rparr>" "\<lparr>Min_l = Fin (- 5), Max_l = Fin 5\<rparr>"
      "\<lparr>Value = Fin 7\<rparr>" "\<lparr>Min_l = Fin (- 5), Max_l = Fin 5\<rparr>"
      "[]" "\<lparr>name = ''t'', limits = [\<lparr>Min_l = Fin 0, Max_l = Fin 10\<rparr>]\<rparr>"]
  by (simp del: Transform.simps add: out_of_range_def NewPoseFromPoint_def r3_Mul_def) blast

text \<open>
  C3. The claim: \<^verbatim>\<open>Geometries\<close> of a rotational frame succeeds on a valid input and returns
  an empty list of geometries. The method returns no geometries and the error
  \<^verbatim>\<open>Geometries not implemented\<close> on every input, the valid ones included.
\<close>

theorem rotationalFrame_Geometries_error:
  "Geometries (rotationalFrame bf rotAxis) input =
     Returns (None, Some [''Geometries not implemented for type *referenceframe.rotationalFrame''])"
  by simp

theorem rotationalFrame_Geometries_error_witness:
  "case NewRotationalFrame ''joint'' \<lparr>Theta = Fin 0, RX = Fin 0, RY = Fin 0, RZ = Fin 1\<rparr>
          \<lparr>Min_l = Fin (- 1), Max_l = Fin 1\<rparr> of
     (Some f, None) \<Rightarrow>
       validInputs \<lparr>name = ''joint'', limits = DoF f\<rparr> [\<lparr>Value = Fin 0\<rparr>] = None \<and>
       Geometries f [\<lparr>Value = Fin 0\<rparr>] =
       Returns (None, Some [''Geometries not implemented for type *referenceframe.rotationalFrame''])
   | _ \<Rightarrow> False"
  using rotationalFrame_Geometries_error
  by (simp add: NewRotationalFrame_def Let_def validInputs_def validInputs_step_def out_of_range_def)








text \<open>
  C7. \<^verbatim>\<open>Geometries\<close> of a no-geometry wrapper returns an empty list of geometries under
  the name of the inner frame, and no error, for every inner frame and every input; the
  inner \<^verbatim>\<open>Geometries\<close> is not called.
\<close>

theorem noGeometryFrame_Geometries_empty:
  "Geometries (noGeometryFrame f) i = Returns (Some \<lparr>frame = Name f, geometries = []\<rparr>, None)"
  by (simp add: NewGeometriesInFrame_def)

theorem noGeometryFrame_Geometries_empty_witness:
  "Geometries (rotationalFrame \<lparr>name = ''joint'', limits = []\<rparr> r3_zero) [] =
     Returns (None, Some [''Geometries not implemented for type *referenceframe.rotationalFrame'']) \<and>
   Geometries (noGeometryFrame (rotationalFrame \<lparr>name = ''joint'', limits = []\<rparr> r3_zero)) [] =
     Returns (Some \<lparr>frame = ''joint'', geometries = []\<rparr>, None)"
  using noGeometryFrame_Geometries_empty [of "rotationalFrame \<lparr>name = ''joint'', limits = []\<rparr> r3_zero" "[]"]
  by simp




text \<open>
  C9. The claim: the named wrapper \<^verbatim>\<open>NewNamedFrame(f, n)\<close> answers \<^verbatim>\<open>AlmostEquals\<close> as the
  inner frame does, whatever \<open>n\<close> is, its name is \<open>n\<close>, and its \<^verbatim>\<open>Geometries\<close> returns the
  geometries of the inner frame under the name \<open>n\<close>. \<^verbatim>\<open>AlmostEquals\<close>, \<^verbatim>\<open>Transform\<close> and
  \<^verbatim>\<open>DoF\<close> are the inner frame's and the name is \<open>n\<close>; \<^verbatim>\<open>Geometries\<close> returns the inner
  geometries under the name \<open>n\<close> when the inner error is \<^verbatim>\<open>nil\<close>. It returns at once on any
  inner error: when the inner frame returns its geometries beside the non-fatal
  out-of-bounds error, the wrapper returns the error and no geometries.
\<close>

theorem namedFrame_delegates:
  "AlmostEquals oeq (NewNamedFrame f n) g = AlmostEquals oeq f g \<and>
   Name (NewNamedFrame f n) = n \<and>
   Transform (NewNamedFrame f n) i = Transform f i \<and>
   DoF (NewNamedFrame f n) = DoF f \<and>
   (Geometries f i = Returns (Some gf, None) \<longrightarrow>
      Geometries (NewNamedFrame f n) i =
        Returns (Some (NewGeometriesInFrame n (geometries gf)), None)) \<and>
   (Geometries f i = Returns (r, Some e) \<longrightarrow>
      Geometries (NewNamedFrame f n) i = Returns (None, Some e))"
  by (simp add: NewNamedFrame_def)

theorem namedFrame_delegates_witness:
  "Geometries
     (translationalFrame \<lparr>name = ''t'', limits = [\<lparr>Min_l = Fin 0, Max_l = Fin 10\<rparr>]\<rparr>
        \<lparr>X = Fin 1, Y = Fin 0, Z = Fin 0\<rparr>
        (Some \<lparr>shape = Sphere (Fin 1), placement = [], label = ''ball''\<rparr>))
     [\<lparr>Value = Fin 15\<rparr>] =
     Returns (Some \<lparr>frame = ''t'', geometries =
                [\<lparr>shape = Sphere (Fin 1),
                  placement = [\<lparr>Point = \<lparr>X = Fin 15, Y = Fin 0, Z = Fin 0\<rparr>,
                               Orientation = NewZeroOrientation\<rparr>],
                  label = ''ball''\<rparr>]\<rparr>,
              Some (oob_error 0 \<lparr>Value = Fin 15\<rparr> \<lparr>Min_l = Fin 0, Max_l = Fin 10\<rparr>)) \<and>
   Geometries
     (NewNamedFrame
        (translationalFrame \<lparr>name = ''t'', limits = [\<lparr>Min_l = Fin 0, Max_l = Fin 10\<rparr>]\<rparr>
           \<lparr>X = Fin 1, Y = Fin 0, Z = Fin 0\<rparr>
           (Some \<lparr>shape = Sphere (Fin 1), placement = [], label = ''ball''\<rparr>)) ''n'')
     [\<lparr>Value = Fin 15\<rparr>] =
     Returns (None, Some (oob_error 0 \<lparr>Value = Fin 15\<rparr> \<lparr>Min_l = Fin 0, Max_l = Fin 10\<rparr>)) \<and>
   Geometries (NewZeroStaticFrame ''a'') [] =
     Returns (Some \<lparr>frame = ''a'', geometries = []\<rparr>, None) \<and>
   Geometries (NewNamedFrame (NewZeroStaticFrame ''a'') ''b'') [] =
     Returns (Some \<lparr>frame = ''b'', geometries = []\<rparr>, None) \<and>
   Name (NewNamedFrame (NewZeroStaticFrame ''a'') ''b'') = ''b''"
proof -
  let ?f = "translationalFrame \<lparr>name = ''t'', limits = [\<lparr>Min_l = Fin 0, Max_l = Fin 10\<rparr>]\<rparr>
        \<lparr>X = Fin 1, Y = Fin 0, Z = Fin 0\<rparr>
        (Some \<lparr>shape = Sphere (Fin 1), placement = [], label = ''ball''\<rparr>)"
  let ?e = "oob_error 0 \<lparr>Value = Fin 15\<rparr> \<lparr>Min_l = Fin 0, Max_l = Fin 10\<rparr>"
  let ?gf = "\<lparr>frame = ''t'', geometries =
                [\<lparr>shape = Sphere (Fin 1),
                  placement = [\<lparr>Point = \<lparr>X = Fin 15, Y = Fin 0, Z = Fin 0\<rparr>,
                               Orientation = NewZeroOrientation\<rparr>],
                  label = ''ball''\<rparr>]\<rparr>"
  have inner: "Geometries ?f [\<lparr>Value = Fin 15\<rparr>] = Returns (Some ?gf, Some ?e)"
    using not_fatal_oob_error [of 0 "\<lparr>Value = Fin 15\<rparr>" "\<lparr>Min_l = Fin 0, Max_l = Fin 10\<rparr>"]
    by (simp add: moved_def validInputs_single out_of_range_def NewPoseFromPoint_def r3_Mul_def
        NewGeometriesInFrame_def Geometry_Transform_def)
  have zero: "Geometries (NewZeroStaticFrame ''a'') [] =
     Returns (Some \<lparr>frame = ''a'', geometries = []\<rparr>, None)"
    by (simp add: NewZeroStaticFrame_def NewGeometriesInFrame_def)
  show ?thesis
    using namedFrame_delegates [of "(=)" ?f "''n''" ?f "[\<lparr>Value = Fin 15\<rparr>]" ?gf "Some ?gf" ?e]
      namedFrame_delegates [of "(=)" "NewZeroStaticFrame ''a''" "''b''" "NewZeroStaticFrame ''a''"
        "[]" "\<lparr>frame = ''a'', geometries = []\<rparr>" None "[]"]
      inner zero
    by (simp del: Geometries.simps add: NewGeometriesInFrame_def)
qed

text \<open>
  C10. A static frame and a tail-geometry static frame without a geometry return an empty
  list of geometries and no error for every input, also for a non-empty input, on which
  \<^verbatim>\<open>Transform\<close> returns no pose and the length-mismatch error, which is fatal: the check of
  the geometry comes before the check of the length.
\<close>

theorem staticFrame_Geometries_without_geometry:
  "Geometries (staticFrame bf t None) input =
     Returns (Some (NewGeometriesInFrame (name bf) []), None) \<and>
   Geometries (tailGeometryStaticFrame bf t None) input =
     Returns (Some (NewGeometriesInFrame (name bf) []), None) \<and>
   (input \<noteq> [] \<longrightarrow>
      Transform (staticFrame bf t None) input =
        Returns (None, Some (NewIncorrectInputLengthError (length input) 0)) \<and>
      Transform (tailGeometryStaticFrame bf t None) input =
        Returns (None, Some (NewIncorrectInputLengthError (length input) 0)) \<and>
      fatal (Some (NewIncorrectInputLengthError (length input) 0)))"
  by (simp add: fatal_def length_error_not_oob)

theorem staticFrame_Geometries_without_geometry_witness:
  "[\<lparr>Value = Fin 1\<rparr>] \<noteq> [] \<and>
   Geometries (NewZeroStaticFrame ''a'') [\<lparr>Value = Fin 1\<rparr>] =
     Returns (Some \<lparr>frame = ''a'', geometries = []\<rparr>, None) \<and>
   Transform (NewZeroStaticFrame ''a'') [\<lparr>Value = Fin 1\<rparr>] =
     Returns (None, Some (NewIncorrectInputLengthError 1 0))"
  using staticFrame_Geometries_without_geometry
    [of "\<lparr>name = ''a'', limits = []\<rparr>" NewZeroPose "[\<lparr>Value = Fin 1\<rparr>]"]
  by (simp add: NewZeroStaticFrame_def NewGeometriesInFrame_def)

end
